theory Spec2Isabelle
  imports Main "HOL-Library.Sublist"
begin

section \<open>JavaScript values and strings\<close>

text \<open>
  The lead-intake server (\<^verbatim>\<open>src/server.js\<close>) receives JSON bodies and hands the free-text
  message to \<^verbatim>\<open>classifyLead\<close>. A JavaScript string is a sequence of code units; here a
  code unit is a \<^typ>\<open>char\<close>, read as the code point of the same number
  (U+0000 to U+00FF), so a \<^typ>\<open>string\<close> is a JavaScript string over that range.

  The values a body field or an argument can hold are modelled by \<open>jsval\<close>:
  a missing field or argument is \<open>JUndefined\<close>.
\<close>

datatype jsval = JUndefined | JNull | JBool bool | JString string

text \<open>\<^verbatim>\<open>String(v)\<close>.\<close>

fun String_js :: "jsval \<Rightarrow> string" where
  "String_js JUndefined = ''undefined''"
| "String_js JNull = ''null''"
| "String_js (JBool b) = (if b then ''true'' else ''false'')"
| "String_js (JString s) = s"

text \<open>
  \<^verbatim>\<open>s.toLowerCase()\<close> on U+0000 to U+00FF: the letters A to Z (65 to 90) and the
  Latin-1 capitals U+00C0 to U+00DE without the multiplication sign U+00D7 move up by 32;
  every other code unit of the range is its own lower case.
\<close>

definition lower_char :: "char \<Rightarrow> char" where
  "lower_char c =
     (let n = (of_char c :: nat)
      in if (65 \<le> n \<and> n \<le> 90) \<or> (192 \<le> n \<and> n \<le> 222 \<and> n \<noteq> 215)
         then char_of (n + 32) else c)"

definition toLowerCase :: "string \<Rightarrow> string" where
  "toLowerCase s = map lower_char s"

text \<open>
  \<^verbatim>\<open>s.includes(k)\<close>: the search tries every position of \<open>s\<close> from the left and
  compares \<open>k\<close> with what starts there.
\<close>

fun includes_js :: "string \<Rightarrow> string \<Rightarrow> bool" where
  "includes_js [] k = (k = [])"
| "includes_js (c # cs) k = (prefix k (c # cs) \<or> includes_js cs k)"

text \<open>
  A non-negative integer in decimal, and \<^verbatim>\<open>String(n)\<close> for an integer \<open>n\<close> as a
  template literal renders it.
\<close>

definition digit_char :: "nat \<Rightarrow> char" where
  "digit_char d = char_of (48 + d)"

function decimal :: "nat \<Rightarrow> string" where
  "decimal n = (if n < 10 then [digit_char n] else decimal (n div 10) @ [digit_char (n mod 10)])"
  by pat_completeness auto
termination
  by (relation "measure id") auto

definition numberToString :: "int \<Rightarrow> string" where
  "numberToString i = (if i < 0 then CHR ''-'' # decimal (nat (- i)) else decimal (nat i))"

section \<open>The classification engine\<close>

record signal =
  key :: string
  points :: int
  reason :: string

definition highSignals :: "signal list" where
  "highSignals =
    [\<lparr>key = ''asap'', points = 3, reason = ''Urgent timeline''\<rparr>,
     \<lparr>key = ''next month'', points = 3, reason = ''Near-term intent''\<rparr>,
     \<lparr>key = ''starting'', points = 2, reason = ''Start date mentioned''\<rparr>,
     \<lparr>key = ''within'', points = 2, reason = ''Defined timeline window''\<rparr>,
     \<lparr>key = ''by'', points = 1, reason = ''Deadline mentioned''\<rparr>,
     \<lparr>key = ''premium'', points = 2, reason = ''Premium service language''\<rparr>,
     \<lparr>key = ''proposal'', points = 2, reason = ''Requesting a proposal''\<rparr>,
     \<lparr>key = ''quote'', points = 2, reason = ''Requesting a quote''\<rparr>,
     \<lparr>key = ''budget'', points = 2, reason = ''Budget mentioned''\<rparr>,
     \<lparr>key = ''scope'', points = 2, reason = ''Scope mentioned''\<rparr>,
     \<lparr>key = ''requirements'', points = 2, reason = ''Requirements mentioned''\<rparr>,
     \<lparr>key = ''deliverables'', points = 2, reason = ''Deliverables mentioned''\<rparr>,
     \<lparr>key = ''contract'', points = 2, reason = ''Contract language''\<rparr>,
     \<lparr>key = ''retainer'', points = 2, reason = ''Retainer language''\<rparr>,
     \<lparr>key = ''call'', points = 1, reason = ''Wants to discuss next steps''\<rparr>,
     \<lparr>key = ''meeting'', points = 1, reason = ''Wants to discuss next steps''\<rparr>]"

definition lowSignals :: "signal list" where
  "lowSignals =
    [\<lparr>key = ''just curious'', points = 4, reason = ''Low intent language''\<rparr>,
     \<lparr>key = ''maybe later'', points = 3, reason = ''Uncertain timeline''\<rparr>,
     \<lparr>key = ''not sure'', points = 3, reason = ''Uncertain intent''\<rparr>,
     \<lparr>key = ''whenever'', points = 2, reason = ''No urgency''\<rparr>,
     \<lparr>key = ''someday'', points = 2, reason = ''No timeline''\<rparr>,
     \<lparr>key = ''someone nice'', points = 2, reason = ''Vague request language''\<rparr>,
     \<lparr>key = ''anything'', points = 2, reason = ''Vague request language''\<rparr>,
     \<lparr>key = ''free'', points = 4, reason = ''Low budget / free request''\<rparr>,
     \<lparr>key = ''cheap'', points = 3, reason = ''Low investment signal''\<rparr>,
     \<lparr>key = ''urgent help pls'', points = 3, reason = ''Low-signal / spammy phrasing''\<rparr>]"

definition intentSignals :: "string list" where
  "intentSignals =
    [''asap'', ''next month'', ''starting'', ''within'', ''by'',
     ''proposal'', ''quote'', ''budget'', ''scope'', ''requirements'', ''deliverables'',
     ''contract'', ''retainer'', ''call'', ''meeting'']"

definition hardNegatives :: "string list" where
  "hardNegatives = [''hookups'', ''free dating app'']"

text \<open>
  The local constants of \<^verbatim>\<open>classifyLead\<close>, each as a function of the lower-cased
  \<open>message\<close> it is computed from.
\<close>

definition normalizedMessage :: "jsval \<Rightarrow> string" where
  \<comment> \<open>the default parameter \<^verbatim>\<open>messageRaw = ""\<close> replaces \<^verbatim>\<open>undefined\<close> only\<close>
  "normalizedMessage messageRaw =
     toLowerCase (String_js (case messageRaw of JUndefined \<Rightarrow> JString [] | v \<Rightarrow> v))"

definition matchedHigh :: "string \<Rightarrow> signal list" where
  "matchedHigh message = filter (\<lambda>s. includes_js message (key s)) highSignals"

definition matchedLow :: "string \<Rightarrow> signal list" where
  "matchedLow message = filter (\<lambda>s. includes_js message (key s)) lowSignals"

definition hasIntentSignal :: "string \<Rightarrow> bool" where
  "hasIntentSignal message = list_ex (\<lambda>k. includes_js message k) intentSignals"

definition hasHardNegative :: "string \<Rightarrow> bool" where
  "hasHardNegative message = list_ex (\<lambda>k. includes_js message k) hardNegatives"

record score_breakdown =
  highScore :: int
  lowScore :: int
  netScore :: int

record reason_lists =
  high :: "string list"
  low :: "string list"

record classification =
  label :: string
  scores :: score_breakdown
  reasons :: reason_lists

definition classifyLead :: "jsval \<Rightarrow> classification" where
  "classifyLead messageRaw =
     (let message = normalizedMessage messageRaw;
          hs = foldl (\<lambda>sum s. sum + points s) 0 (matchedHigh message);
          ls = foldl (\<lambda>sum s. sum + points s) 0 (matchedLow message);
          net = hs - ls
      in \<lparr>label =
            (if \<not> hasHardNegative message \<and> hasIntentSignal message \<and> net \<ge> 3
             then ''HIGH'' else ''LOW''),
          scores = \<lparr>highScore = hs, lowScore = ls, netScore = net\<rparr>,
          reasons =
            \<lparr>high = map (\<lambda>s. reason s @ '' (+'' @ numberToString (points s) @ '')'')
                      (matchedHigh message),
             low = map (\<lambda>s. reason s @ '' (-'' @ numberToString (points s) @ '')'')
                     (matchedLow message)\<rparr>\<rparr>)"

section \<open>The \<^verbatim>\<open>POST /lead\<close> handler\<close>

text \<open>
  The handler talks to four collaborators: the mail transport, the file system, the Notion
  client and the Slack client. Their answers are not decided by the program, so a run of
  the handler takes them from an environment, and it records, in order, every call the
  handler makes. A run ends with the response that was sent, or with the value that was
  thrown out of the handler when no \<^verbatim>\<open>try\<close> block caught it.
\<close>

text \<open>
  A thrown value, reduced to the two properties the handler reads
  (\<^verbatim>\<open>err?.data\<close>, \<^verbatim>\<open>err?.message\<close>); the empty string stands for a property that is
  absent or falsy.
\<close>

record thrown =
  err_data :: string
  err_message :: string

text \<open>The fields \<^verbatim>\<open>const { email, phone, whatsapp, message, company_website } = req.body\<close>.\<close>

record lead_body =
  email :: jsval
  phone :: jsval
  whatsapp :: jsval
  message :: jsval
  company_website :: jsval

text \<open>Truthiness, \<^verbatim>\<open>v || ""\<close> on a value and \<^verbatim>\<open>a || b\<close> on strings.\<close>

fun truthy :: "jsval \<Rightarrow> bool" where
  "truthy JUndefined = False"
| "truthy JNull = False"
| "truthy (JBool b) = b"
| "truthy (JString s) = (s \<noteq> [])"

definition or_empty :: "jsval \<Rightarrow> jsval" where
  "or_empty v = (if truthy v then v else JString [])"

definition or_else :: "string \<Rightarrow> string \<Rightarrow> string" where
  "or_else a b = (if a \<noteq> [] then a else b)"

definition or_null :: "string \<Rightarrow> string option" where
  \<comment> \<open>\<^verbatim>\<open>s || null\<close>\<close>
  "or_null s = (if s \<noteq> [] then Some s else None)"

text \<open>
  \<^verbatim>\<open>s.trim()\<close>: the white space and line terminators of U+0000 to U+00FF are
  TAB, LF, VT, FF, CR, SPACE and NO-BREAK SPACE.
\<close>

definition is_space :: "char \<Rightarrow> bool" where
  "is_space c = ((of_char c :: nat) \<in> {9, 10, 11, 12, 13, 32, 160})"

definition trim :: "string \<Rightarrow> string" where
  "trim s = rev (dropWhile is_space (rev (dropWhile is_space s)))"

definition isLikelyEmail :: "jsval \<Rightarrow> bool" where
  "isLikelyEmail v =
     (let v = trim (String_js (case v of JUndefined \<Rightarrow> JString [] | w \<Rightarrow> w))
      in includes_js v ''@'' \<and> includes_js v ''.'' \<and> length v \<ge> 6)"

text \<open>\<^verbatim>\<open>xs.join(sep)\<close>.\<close>

fun join :: "string \<Rightarrow> string list \<Rightarrow> string" where
  "join sep [] = []"
| "join sep [x] = x"
| "join sep (x # y # ys) = x @ sep @ join sep (y # ys)"

text \<open>The object appended to \<^verbatim>\<open>data/leads.jsonl\<close>.\<close>

record lead =
  lead_id :: string
  created_at :: string
  lead_label :: string
  lead_scores :: score_breakdown
  lead_reasons :: reason_lists
  lead_email :: "string option"
  lead_phone :: "string option"
  lead_whatsapp :: "string option"
  lead_company_website :: "string option"
  lead_message :: string

text \<open>The properties of the page that \<^verbatim>\<open>createNotionLeadPage\<close> creates.\<close>

record notion_properties =
  prop_Name :: string
  prop_Lead_ID :: string
  prop_Label :: string
  prop_Created_At :: string
  prop_Message :: string
  prop_Score_net :: int
  prop_Score_High :: int
  prop_Score_Low :: int
  prop_Email :: "string option"
  prop_Phone :: "string option"
  prop_WhatsApp :: "string option"

text \<open>
  The text posted to Slack, line by line: each field is what the template literal puts
  after the line's heading. The marker is the green circle for HIGH and the red one
  otherwise; the summary is followed by an ellipsis when it was cut.
\<close>

record slack_text =
  marker_green :: bool
  line_LEAD :: string
  line_Score :: string
  line_Auto_response :: string
  line_Notion :: string
  line_Reasons :: string
  line_Email :: string
  line_Phone :: string
  line_WhatsApp :: string
  line_Summary :: string
  summary_ellipsis :: bool
  full_message :: string

datatype call =
    CallClassifyLead string
  | CallSendMail string
  | CallAppendLeadToDisk lead
  | CallNotionPagesCreate notion_properties
  | CallSlackPostMessage slack_text

text \<open>
  The environment of one request: whether \<^verbatim>\<open>process.env.NOTION_TOKEN\<close> is set
  (\<^verbatim>\<open>NOTION_DATABASE_ID\<close> is, or the process has exited at start), what each collaborator
  does when called (\<open>None\<close>: it returns; \<open>Some err\<close>: it throws \<open>err\<close>), the id of the page
  Notion creates (empty when the answer carries none), and the values of \<^verbatim>\<open>safeId()\<close> and
  \<^verbatim>\<open>new Date().toISOString()\<close>.
\<close>

record env =
  NOTION_TOKEN_set :: bool
  sendMail_throws :: "thrown option"
  appendLeadToDisk_throws :: "thrown option"
  pagesCreate_throws :: "thrown option"
  pagesCreate_id :: string
  postMessage_throws :: "thrown option"
  safeId_value :: string
  toISOString_value :: string

datatype response_body =
    Ignored
  | Failed string
  | Accepted string string string "string option"

record response =
  status :: nat
  body :: response_body

record run =
  calls :: "call list"
  outcome :: "thrown + response"

text \<open>
  \<^verbatim>\<open>createNotionLeadPage\<close>: the calls it makes and, unless it throws, its answer
  \<^verbatim>\<open>{ ok, skipped, page_id }\<close>.
\<close>

record notion_answer =
  answer_ok :: bool
  answer_skipped :: bool
  answer_page_id :: string

definition createNotionLeadPage ::
  "env \<Rightarrow> lead \<Rightarrow> call list \<times> (thrown + notion_answer)" where
  "createNotionLeadPage e l =
     (if \<not> NOTION_TOKEN_set e
      then ([], Inr \<lparr>answer_ok = False, answer_skipped = True, answer_page_id = []\<rparr>)
      else
        let properties =
              \<lparr>prop_Name = ''Lead '' @ lead_id l,
               prop_Lead_ID = lead_id l,
               prop_Label = lead_label l,
               prop_Created_At = created_at l,
               prop_Message = lead_message l,
               prop_Score_net = netScore (lead_scores l),
               prop_Score_High = highScore (lead_scores l),
               prop_Score_Low = lowScore (lead_scores l),
               prop_Email = lead_email l,
               prop_Phone = lead_phone l,
               prop_WhatsApp = lead_whatsapp l\<rparr>
        in (case pagesCreate_throws e of
              Some err \<Rightarrow> ([CallNotionPagesCreate properties], Inl err)
            | None \<Rightarrow>
                ([CallNotionPagesCreate properties],
                 Inr \<lparr>answer_ok = True, answer_skipped = False,
                      answer_page_id = pagesCreate_id e\<rparr>)))"

text \<open>
  The Notion step of the handler (HIGH leads only): the calls made, \<^verbatim>\<open>notionStatus\<close>
  and \<^verbatim>\<open>notionPageId\<close>.
\<close>

definition notion_step :: "env \<Rightarrow> lead \<Rightarrow> call list \<times> string \<times> string option" where
  "notion_step e l =
     (if lead_label l = ''HIGH''
      then (case createNotionLeadPage e l of
              (cs, Inr notionResp) \<Rightarrow>
                if answer_ok notionResp then (cs, ''ok'', or_null (answer_page_id notionResp))
                else if answer_skipped notionResp then (cs, ''skipped'', None)
                else (cs, ''failed'', None)
            | (cs, Inl err) \<Rightarrow> (cs, ''failed'', None))
      else ([], ''skipped'', None))"

text \<open>
  The auto-response step (HIGH leads with a plausible address only): the calls made,
  \<^verbatim>\<open>emailStatus\<close> and \<^verbatim>\<open>emailError\<close>.
\<close>

definition email_step ::
  "env \<Rightarrow> string \<Rightarrow> string \<Rightarrow> call list \<times> string \<times> string option" where
  "email_step e lbl cleanEmail =
     (if lbl = ''HIGH'' \<and> isLikelyEmail (JString cleanEmail)
      then (case sendMail_throws e of
              None \<Rightarrow> ([CallSendMail cleanEmail], ''sent'', None)
            | Some err \<Rightarrow>
                ([CallSendMail cleanEmail], ''failed'',
                 Some (or_else (err_message err) ''unknown email error'')))
      else ([], ''not_sent'', None))"

definition slack_message ::
  "classification \<Rightarrow> string \<Rightarrow> string option \<Rightarrow> string \<Rightarrow> string option \<Rightarrow>
   string \<Rightarrow> string \<Rightarrow> string \<Rightarrow> string \<Rightarrow> slack_text" where
  "slack_message c emailStatus emailError notionStatus notionPageId
       cleanEmail cleanPhone cleanWhatsapp cleanMessage =
     \<lparr>marker_green = (label c = ''HIGH''),
      line_LEAD = label c,
      line_Score =
        numberToString (netScore (scores c)) @ '' (high '' @
        numberToString (highScore (scores c)) @ '' / low '' @
        numberToString (lowScore (scores c)) @ '')'',
      line_Auto_response =
        emailStatus @ (case emailError of Some m \<Rightarrow> '' ('' @ m @ '')'' | None \<Rightarrow> []),
      line_Notion =
        notionStatus @ (case notionPageId of Some p \<Rightarrow> '' ('' @ p @ '')'' | None \<Rightarrow> []),
      line_Reasons =
        or_else
          (join '', '' (if label c = ''HIGH'' then high (reasons c) else low (reasons c)))
          ''No keyword match'',
      line_Email = or_else cleanEmail ''N/A'',
      line_Phone = or_else cleanPhone ''N/A'',
      line_WhatsApp = or_else cleanWhatsapp ''N/A'',
      line_Summary = take 140 cleanMessage,
      summary_ellipsis = (length cleanMessage > 140),
      full_message = cleanMessage\<rparr>"

text \<open>The handler from the call of \<^verbatim>\<open>classifyLead\<close> on, for a request that passed the checks.\<close>

definition process_lead :: "env \<Rightarrow> string \<Rightarrow> string \<Rightarrow> string \<Rightarrow> string \<Rightarrow> run" where
  "process_lead e cleanMessage cleanEmail cleanPhone cleanWhatsapp =
     (let c = classifyLead (JString cleanMessage);
          (mailCalls, emailStatus, emailError) = email_step e (label c) cleanEmail;
          l = \<lparr>lead_id = safeId_value e,
               created_at = toISOString_value e,
               lead_label = label c,
               lead_scores = scores c,
               lead_reasons = reasons c,
               lead_email = or_null cleanEmail,
               lead_phone = or_null cleanPhone,
               lead_whatsapp = or_null cleanWhatsapp,
               lead_company_website = None,
               lead_message = cleanMessage\<rparr>;
          upToAppend = [CallClassifyLead cleanMessage] @ mailCalls @ [CallAppendLeadToDisk l]
      in case appendLeadToDisk_throws e of
           Some err \<Rightarrow> \<lparr>calls = upToAppend, outcome = Inl err\<rparr>
         | None \<Rightarrow>
             let (notionCalls, notionStatus, notionPageId) = notion_step e l;
                 text = slack_message c emailStatus emailError notionStatus notionPageId
                          cleanEmail cleanPhone cleanWhatsapp cleanMessage;
                 allCalls = upToAppend @ notionCalls @ [CallSlackPostMessage text]
             in case postMessage_throws e of
                  None \<Rightarrow>
                    \<lparr>calls = allCalls,
                     outcome = Inr \<lparr>status = 200,
                       body = Accepted (label c) (lead_id l) notionStatus notionPageId\<rparr>\<rparr>
                | Some err \<Rightarrow>
                    \<lparr>calls = allCalls,
                     outcome = Inr \<lparr>status = 500,
                       body = Failed (or_else (err_data err)
                                (or_else (err_message err) ''Unknown error''))\<rparr>\<rparr>)"

definition post_lead :: "env \<Rightarrow> lead_body \<Rightarrow> run" where
  "post_lead e b =
     (if length (trim (String_js (or_empty (company_website b)))) > 0
      then \<lparr>calls = [], outcome = Inr \<lparr>status = 200, body = Ignored\<rparr>\<rparr>
      else
        let cleanMessage = trim (String_js (or_empty (message b)));
            cleanEmail = trim (String_js (or_empty (email b)));
            cleanPhone = trim (String_js (or_empty (phone b)));
            cleanWhatsapp = trim (String_js (or_empty (whatsapp b)))
        in if cleanMessage = []
           then \<lparr>calls = [],
                 outcome = Inr \<lparr>status = 400, body = Failed ''Message is required.''\<rparr>\<rparr>
           else if cleanEmail = [] \<and> cleanPhone = [] \<and> cleanWhatsapp = []
           then \<lparr>calls = [],
                 outcome = Inr \<lparr>status = 400, body = Failed
                   ''Provide at least one contact method: Email, Phone, or WhatsApp.''\<rparr>\<rparr>
           else process_lead e cleanMessage cleanEmail cleanPhone cleanWhatsapp)"

section \<open>Notions the properties are stated with\<close>

text \<open>
  How many times a phrase occurs in a message: the number of positions of \<open>s\<close> at which
  \<open>k\<close> starts (occurrences that overlap are all counted).
\<close>

fun occurrences :: "string \<Rightarrow> string \<Rightarrow> nat" where
  "occurrences k [] = (if k = [] then 1 else 0)"
| "occurrences k (c # cs) = (if prefix k (c # cs) then 1 else 0) + occurrences k cs"

text \<open>
  A request passes the checks of the handler when the honeypot is empty after trimming,
  the message is not, and one of the three contact fields is not.
\<close>

definition passes_checks :: "lead_body \<Rightarrow> bool" where
  "passes_checks b =
     (trim (String_js (or_empty (company_website b))) = []
      \<and> trim (String_js (or_empty (message b))) \<noteq> []
      \<and> (trim (String_js (or_empty (email b))) \<noteq> []
         \<or> trim (String_js (or_empty (phone b))) \<noteq> []
         \<or> trim (String_js (or_empty (whatsapp b))) \<noteq> []))"

fun is_append_call :: "call \<Rightarrow> bool" where
  "is_append_call (CallAppendLeadToDisk l) = True"
| "is_append_call c = False"

fun is_notion_call :: "call \<Rightarrow> bool" where
  "is_notion_call (CallNotionPagesCreate p) = True"
| "is_notion_call c = False"

fun is_slack_call :: "call \<Rightarrow> bool" where
  "is_slack_call (CallSlackPostMessage t) = True"
| "is_slack_call c = False"

section \<open>Substring search and scoring, declaratively\<close>

text \<open>
  \<^verbatim>\<open>includes\<close> finds \<open>k\<close> in \<open>s\<close> exactly when \<open>k\<close> is a contiguous part of \<open>s\<close>
  (\<^const>\<open>sublist\<close>), and \<^verbatim>\<open>reduce\<close> over the matched rules adds up their points.
\<close>

lemma includes_js_sublist: "includes_js s k \<longleftrightarrow> sublist k s"
  by (induction s) (simp_all add: sublist_Cons_right)

lemma foldl_points:
  "foldl (\<lambda>sum s. sum + points s) a xs = a + sum_list (map points xs)"
  by (induction xs arbitrary: a) simp_all

lemma list_ex_includes: "list_ex (\<lambda>k. includes_js s k) ks \<longleftrightarrow> (\<exists>k\<in>set ks. sublist k s)"
  by (simp add: list_ex_iff includes_js_sublist)

lemma label_classifyLead:
  "label (classifyLead v) =
     (if \<not> hasHardNegative (normalizedMessage v) \<and> hasIntentSignal (normalizedMessage v)
         \<and> netScore (scores (classifyLead v)) \<ge> 3
      then ''HIGH'' else ''LOW'')"
  by (simp add: classifyLead_def Let_def)

lemma scores_classifyLead:
  "highScore (scores (classifyLead v)) = sum_list (map points (matchedHigh (normalizedMessage v)))"
  "lowScore (scores (classifyLead v)) = sum_list (map points (matchedLow (normalizedMessage v)))"
  "netScore (scores (classifyLead v)) =
     highScore (scores (classifyLead v)) - lowScore (scores (classifyLead v))"
  by (simp_all add: classifyLead_def Let_def foldl_points)

lemma sum_points_filter:
  "sum_list (map points (filter P xs)) = (\<Sum>s\<leftarrow>xs. if P s then points s else 0)"
  by (induction xs) simp_all

lemma netScore_of_message:
  "netScore (scores (classifyLead v)) =
     (\<Sum>s\<leftarrow>highSignals. if sublist (key s) (normalizedMessage v) then points s else 0)
     - (\<Sum>s\<leftarrow>lowSignals. if sublist (key s) (normalizedMessage v) then points s else 0)"
  by (simp add: scores_classifyLead matchedHigh_def matchedLow_def sum_points_filter
        includes_js_sublist)

lemma intent_keys_are_high_keys: "set intentSignals \<subseteq> key ` set highSignals"
  by code_simp

lemma non_intent_high_keys: "key ` set highSignals - set intentSignals = {''premium''}"
  by code_simp

lemma hasIntentSignal_matched:
  assumes "hasIntentSignal msg"
  shows "\<exists>s\<in>set (matchedHigh msg). key s \<in> set intentSignals"
proof -
  from assms obtain k where k: "k \<in> set intentSignals" "includes_js msg k"
    by (auto simp: hasIntentSignal_def list_ex_iff)
  with intent_keys_are_high_keys obtain s where "s \<in> set highSignals" "key s = k"
    by auto
  with k show ?thesis by (auto simp: matchedHigh_def)
qed

section \<open>The decision rule\<close>

text \<open>
  C1. For every input, \<^verbatim>\<open>classifyLead\<close> answers HIGH if and only if the lower-cased
  message contains no hard-negative phrase, contains at least one phrase of
  \<^verbatim>\<open>intentSignals\<close>, and its net score is at least 3; in every other case it answers LOW.
  The net score is that of the message: the points of the high-signal rules whose key is
  part of it, less the points of the low-signal rules whose key is part of it. It is the
  \<^verbatim>\<open>netScore\<close> that is returned.
\<close>

theorem label_rule:
  "(label (classifyLead v) = ''HIGH'' \<longleftrightarrow>
      \<not> (\<exists>k\<in>set hardNegatives. sublist k (normalizedMessage v))
      \<and> (\<exists>k\<in>set intentSignals. sublist k (normalizedMessage v))
      \<and> (\<Sum>s\<leftarrow>highSignals. if sublist (key s) (normalizedMessage v) then points s else 0)
        - (\<Sum>s\<leftarrow>lowSignals. if sublist (key s) (normalizedMessage v) then points s else 0)
        \<ge> 3)
   \<and> (label (classifyLead v) \<noteq> ''HIGH'' \<longrightarrow> label (classifyLead v) = ''LOW'')
   \<and> netScore (scores (classifyLead v)) =
       (\<Sum>s\<leftarrow>highSignals. if sublist (key s) (normalizedMessage v) then points s else 0)
       - (\<Sum>s\<leftarrow>lowSignals. if sublist (key s) (normalizedMessage v) then points s else 0)"
proof -
  have "label (classifyLead v) = ''HIGH'' \<longleftrightarrow>
      \<not> (\<exists>k\<in>set hardNegatives. sublist k (normalizedMessage v))
      \<and> (\<exists>k\<in>set intentSignals. sublist k (normalizedMessage v))
      \<and> netScore (scores (classifyLead v)) \<ge> 3"
    by (simp add: label_classifyLead hasHardNegative_def hasIntentSignal_def list_ex_includes)
  moreover have "label (classifyLead v) \<noteq> ''HIGH'' \<longrightarrow> label (classifyLead v) = ''LOW''"
    by (simp add: label_classifyLead)
  ultimately show ?thesis
    unfolding netScore_of_message by blast
qed

text \<open>
  The rule at a HIGH message, and at a message that has an intent phrase and no hard
  negative but a net score of 3 - 4: it is LOW.
\<close>

theorem label_rule_witness:
  "label (classifyLead (JString ''Call me ASAP'')) = ''HIGH''
   \<and> netScore (scores (classifyLead (JString ''Call me ASAP''))) = 4
   \<and> label (classifyLead (JString ''asap just curious'')) = ''LOW''
   \<and> netScore (scores (classifyLead (JString ''asap just curious''))) = - 1"
proof -
  have n: "normalizedMessage (JString ''Call me ASAP'') = ''call me asap''"
    "normalizedMessage (JString ''asap just curious'') = ''asap just curious''"
    by code_simp+
  have h: "(\<Sum>s\<leftarrow>highSignals. if sublist (key s) ''call me asap'' then points s else 0) = 4"
    "(\<Sum>s\<leftarrow>lowSignals. if sublist (key s) ''call me asap'' then points s else 0) = 0"
    "(\<Sum>s\<leftarrow>highSignals. if sublist (key s) ''asap just curious'' then points s else 0) = 3"
    "(\<Sum>s\<leftarrow>lowSignals. if sublist (key s) ''asap just curious'' then points s else 0) = 4"
    by code_simp+
  have g: "\<not> (\<exists>k\<in>set hardNegatives. sublist k ''call me asap'')"
    "\<exists>k\<in>set intentSignals. sublist k ''call me asap''"
    by code_simp+
  note a = label_rule [of "JString ''Call me ASAP''", unfolded n h]
  note b = label_rule [of "JString ''asap just curious''", unfolded n h]
  from a g have "label (classifyLead (JString ''Call me ASAP'')) = ''HIGH''"
    "netScore (scores (classifyLead (JString ''Call me ASAP''))) = 4"
    by simp_all
  moreover from b have "label (classifyLead (JString ''asap just curious'')) = ''LOW''"
    "netScore (scores (classifyLead (JString ''asap just curious''))) = - 1"
    by simp_all
  ultimately show ?thesis by blast
qed

text \<open>
  C2, as the code has it. \<^verbatim>\<open>intentSignals\<close> leaves out "premium" and nothing else of the
  high-signal keys: "retainer" is one of its phrases. For every message whose matched
  high-signal rules are all outside \<^verbatim>\<open>intentSignals\<close>, \<^verbatim>\<open>hasIntentSignal\<close> is false and
  the label is LOW.
\<close>

theorem no_intent_phrase_low:
  "''premium'' \<notin> set intentSignals
   \<and> key ` set highSignals - set intentSignals = {''premium''}
   \<and> ((\<forall>s\<in>set (matchedHigh (normalizedMessage v)). key s \<notin> set intentSignals) \<longrightarrow>
        \<not> hasIntentSignal (normalizedMessage v) \<and> label (classifyLead v) = ''LOW'')"
proof -
  have "''premium'' \<notin> set intentSignals" by (simp add: intentSignals_def)
  moreover note non_intent_high_keys
  moreover have "\<not> hasIntentSignal (normalizedMessage v) \<and> label (classifyLead v) = ''LOW''"
    if "\<forall>s\<in>set (matchedHigh (normalizedMessage v)). key s \<notin> set intentSignals"
  proof -
    from that hasIntentSignal_matched have "\<not> hasIntentSignal (normalizedMessage v)" by blast
    then show ?thesis by (simp add: label_classifyLead)
  qed
  ultimately show ?thesis by blast
qed

text \<open>A message that repeats "premium" and has no intent phrase.\<close>

theorem no_intent_phrase_low_witness:
  "map key (matchedHigh (normalizedMessage (JString ''Premium, premium, PREMIUM service''))) = [''premium'']
   \<and> \<not> hasIntentSignal (normalizedMessage (JString ''Premium, premium, PREMIUM service''))
   \<and> label (classifyLead (JString ''Premium, premium, PREMIUM service'')) = ''LOW''"
proof -
  have a: "map key (matchedHigh (normalizedMessage (JString ''Premium, premium, PREMIUM service''))) = [''premium'']"
    by code_simp
  have "\<forall>s\<in>set (matchedHigh (normalizedMessage (JString ''Premium, premium, PREMIUM service''))). key s = ''premium''"
  proof
    fix s assume "s \<in> set (matchedHigh (normalizedMessage (JString ''Premium, premium, PREMIUM service'')))"
    then have "key s \<in> set (map key (matchedHigh (normalizedMessage (JString ''Premium, premium, PREMIUM service''))))"
      by simp
    then show "key s = ''premium''" by (simp only: a) simp
  qed
  then have "\<forall>s\<in>set (matchedHigh (normalizedMessage (JString ''Premium, premium, PREMIUM service''))). key s \<notin> set intentSignals"
    by (simp add: intentSignals_def)
  with a no_intent_phrase_low [of "JString ''Premium, premium, PREMIUM service''"]
  show ?thesis by blast
qed

text \<open>
  C2 as the specification words it fails: "retainer" is an intent phrase, so a message
  with "premium" and "retainer" passes the intent gate and is HIGH.
\<close>

theorem retainer_is_intent_counterexample:
  "''retainer'' \<in> set intentSignals
   \<and> map key (matchedHigh (normalizedMessage (JString ''premium retainer''))) = [''premium'', ''retainer'']
   \<and> hasIntentSignal (normalizedMessage (JString ''premium retainer''))
   \<and> label (classifyLead (JString ''premium retainer'')) = ''HIGH''"
  by code_simp

text \<open>
  C3. The message of the first end-to-end scenario matches the high-signal rules
  asap (3), within (2), proposal (2), quote (2) and budget (2) and no low-signal rule;
  the scores are 11, 0 and 11, the intent gate is passed and the label is HIGH.
\<close>

theorem scenario1:
  "map (\<lambda>s. (key s, points s))
     (matchedHigh (normalizedMessage (JString
        ''I need this ASAP, please send a proposal and quote within this week. Budget is approved.'')))
     = [(''asap'', 3), (''within'', 2), (''proposal'', 2), (''quote'', 2), (''budget'', 2)]
   \<and> matchedLow (normalizedMessage (JString
        ''I need this ASAP, please send a proposal and quote within this week. Budget is approved.'')) = []
   \<and> hasIntentSignal (normalizedMessage (JString
        ''I need this ASAP, please send a proposal and quote within this week. Budget is approved.''))
   \<and> scores (classifyLead (JString
        ''I need this ASAP, please send a proposal and quote within this week. Budget is approved.''))
     = \<lparr>highScore = 11, lowScore = 0, netScore = 11\<rparr>
   \<and> label (classifyLead (JString
        ''I need this ASAP, please send a proposal and quote within this week. Budget is approved.''))
     = ''HIGH''"
  by code_simp

text \<open>
  C4. Every message whose lower-cased form contains "hookups" or "free dating app" is
  labelled LOW, whatever else it contains and whatever its net score.
\<close>

theorem hard_negative_veto:
  assumes "sublist ''hookups'' (normalizedMessage v) \<or> sublist ''free dating app'' (normalizedMessage v)"
  shows "label (classifyLead v) = ''LOW''"
proof -
  from assms have "hasHardNegative (normalizedMessage v)"
    by (auto simp: hasHardNegative_def hardNegatives_def includes_js_sublist)
  then show ?thesis by (simp add: label_classifyLead)
qed

text \<open>The fourth end-to-end scenario: "asap" passes the intent gate and scores 3.\<close>

theorem hard_negative_veto_witness:
  "sublist ''hookups'' (normalizedMessage (JString ''Interested in HOOKUPS asap''))
   \<and> hasIntentSignal (normalizedMessage (JString ''Interested in HOOKUPS asap''))
   \<and> netScore (scores (classifyLead (JString ''Interested in HOOKUPS asap''))) = 3
   \<and> label (classifyLead (JString ''Interested in HOOKUPS asap'')) = ''LOW''"
proof -
  have a: "sublist ''hookups'' (normalizedMessage (JString ''Interested in HOOKUPS asap''))"
    by code_simp
  have b: "hasIntentSignal (normalizedMessage (JString ''Interested in HOOKUPS asap''))
     \<and> netScore (scores (classifyLead (JString ''Interested in HOOKUPS asap''))) = 3"
    by code_simp
  from a b hard_negative_veto [of "JString ''Interested in HOOKUPS asap''"]
  show ?thesis by blast
qed

section \<open>Scores and reasons\<close>

lemma includes_js_occurrences: "includes_js s k \<longleftrightarrow> 0 < occurrences k s"
  by (induction s) auto

text \<open>
  C5. A rule adds its points once when its phrase occurs in the message and nothing
  otherwise, however many times the phrase occurs: each score is the sum, over the rules
  of its table, of the points of the rules whose phrase occurs at least once. The message
  "asap asap asap" holds the phrase three times and scores 3, as "asap" does.
\<close>

theorem points_counted_once:
  "highScore (scores (classifyLead v)) =
     (\<Sum>s\<leftarrow>highSignals. if 0 < occurrences (key s) (normalizedMessage v) then points s else 0)
   \<and> lowScore (scores (classifyLead v)) =
     (\<Sum>s\<leftarrow>lowSignals. if 0 < occurrences (key s) (normalizedMessage v) then points s else 0)
   \<and> occurrences ''asap'' (normalizedMessage (JString ''asap asap asap'')) = 3
   \<and> occurrences ''asap'' (normalizedMessage (JString ''asap'')) = 1
   \<and> highScore (scores (classifyLead (JString ''asap asap asap''))) = 3
   \<and> highScore (scores (classifyLead (JString ''asap''))) = 3"
proof -
  have "highScore (scores (classifyLead v)) =
     (\<Sum>s\<leftarrow>highSignals. if 0 < occurrences (key s) (normalizedMessage v) then points s else 0)"
    by (simp add: scores_classifyLead matchedHigh_def sum_points_filter includes_js_occurrences)
  moreover have "lowScore (scores (classifyLead v)) =
     (\<Sum>s\<leftarrow>lowSignals. if 0 < occurrences (key s) (normalizedMessage v) then points s else 0)"
    by (simp add: scores_classifyLead matchedLow_def sum_points_filter includes_js_occurrences)
  moreover have "occurrences ''asap'' (normalizedMessage (JString ''asap asap asap'')) = 3
   \<and> occurrences ''asap'' (normalizedMessage (JString ''asap'')) = 1
   \<and> highScore (scores (classifyLead (JString ''asap asap asap''))) = 3
   \<and> highScore (scores (classifyLead (JString ''asap''))) = 3"
    by code_simp
  ultimately show ?thesis by blast
qed

lemma map_filter_key:
  "map f (filter (\<lambda>s. P (key s)) xs) =
   map snd (filter (\<lambda>(k, r). P k) (map (\<lambda>s. (key s, f s)) xs))"
  by (induction xs) simp_all

lemma rendered_high:
  "map (\<lambda>s. (key s, reason s @ '' (+'' @ numberToString (points s) @ '')'')) highSignals =
    [(''asap'', ''Urgent timeline (+3)''),
     (''next month'', ''Near-term intent (+3)''),
     (''starting'', ''Start date mentioned (+2)''),
     (''within'', ''Defined timeline window (+2)''),
     (''by'', ''Deadline mentioned (+1)''),
     (''premium'', ''Premium service language (+2)''),
     (''proposal'', ''Requesting a proposal (+2)''),
     (''quote'', ''Requesting a quote (+2)''),
     (''budget'', ''Budget mentioned (+2)''),
     (''scope'', ''Scope mentioned (+2)''),
     (''requirements'', ''Requirements mentioned (+2)''),
     (''deliverables'', ''Deliverables mentioned (+2)''),
     (''contract'', ''Contract language (+2)''),
     (''retainer'', ''Retainer language (+2)''),
     (''call'', ''Wants to discuss next steps (+1)''),
     (''meeting'', ''Wants to discuss next steps (+1)'')]"
  by code_simp

lemma rendered_low:
  "map (\<lambda>s. (key s, reason s @ '' (-'' @ numberToString (points s) @ '')'')) lowSignals =
    [(''just curious'', ''Low intent language (-4)''),
     (''maybe later'', ''Uncertain timeline (-3)''),
     (''not sure'', ''Uncertain intent (-3)''),
     (''whenever'', ''No urgency (-2)''),
     (''someday'', ''No timeline (-2)''),
     (''someone nice'', ''Vague request language (-2)''),
     (''anything'', ''Vague request language (-2)''),
     (''free'', ''Low budget / free request (-4)''),
     (''cheap'', ''Low investment signal (-3)''),
     (''urgent help pls'', ''Low-signal / spammy phrasing (-3)'')]"
  by code_simp

text \<open>
  C6. \<^verbatim>\<open>reasons.high\<close> lists the matched high-signal rules in the order in which
  \<^verbatim>\<open>highSignals\<close> declares them, each as its reason followed by the points in
  parentheses with a plus sign; \<^verbatim>\<open>reasons.low\<close> does the same for \<^verbatim>\<open>lowSignals\<close>, with a
  minus sign.
\<close>

theorem reasons_in_declaration_order:
  "high (reasons (classifyLead v)) =
     map snd (filter (\<lambda>(k, r). sublist k (normalizedMessage v))
       [(''asap'', ''Urgent timeline (+3)''),
        (''next month'', ''Near-term intent (+3)''),
        (''starting'', ''Start date mentioned (+2)''),
        (''within'', ''Defined timeline window (+2)''),
        (''by'', ''Deadline mentioned (+1)''),
        (''premium'', ''Premium service language (+2)''),
        (''proposal'', ''Requesting a proposal (+2)''),
        (''quote'', ''Requesting a quote (+2)''),
        (''budget'', ''Budget mentioned (+2)''),
        (''scope'', ''Scope mentioned (+2)''),
        (''requirements'', ''Requirements mentioned (+2)''),
        (''deliverables'', ''Deliverables mentioned (+2)''),
        (''contract'', ''Contract language (+2)''),
        (''retainer'', ''Retainer language (+2)''),
        (''call'', ''Wants to discuss next steps (+1)''),
        (''meeting'', ''Wants to discuss next steps (+1)'')])
   \<and> low (reasons (classifyLead v)) =
     map snd (filter (\<lambda>(k, r). sublist k (normalizedMessage v))
       [(''just curious'', ''Low intent language (-4)''),
        (''maybe later'', ''Uncertain timeline (-3)''),
        (''not sure'', ''Uncertain intent (-3)''),
        (''whenever'', ''No urgency (-2)''),
        (''someday'', ''No timeline (-2)''),
        (''someone nice'', ''Vague request language (-2)''),
        (''anything'', ''Vague request language (-2)''),
        (''free'', ''Low budget / free request (-4)''),
        (''cheap'', ''Low investment signal (-3)''),
        (''urgent help pls'', ''Low-signal / spammy phrasing (-3)'')])"
proof -
  have h: "high (reasons (classifyLead v)) =
      map snd (filter (\<lambda>(k, r). sublist k (normalizedMessage v))
        (map (\<lambda>s. (key s, reason s @ '' (+'' @ numberToString (points s) @ '')'')) highSignals))"
    unfolding classifyLead_def Let_def matchedHigh_def includes_js_sublist
    by (simp only: reason_lists.simps classification.simps map_filter_key [where P = "\<lambda>k. sublist k (normalizedMessage v)"])
  have l: "low (reasons (classifyLead v)) =
      map snd (filter (\<lambda>(k, r). sublist k (normalizedMessage v))
        (map (\<lambda>s. (key s, reason s @ '' (-'' @ numberToString (points s) @ '')'')) lowSignals))"
    unfolding classifyLead_def Let_def matchedLow_def includes_js_sublist
    by (simp only: reason_lists.simps classification.simps map_filter_key [where P = "\<lambda>k. sublist k (normalizedMessage v)"])
  show ?thesis
    unfolding h l rendered_high rendered_low by (rule conjI) (rule refl)+
qed

text \<open>
  A message that names its phrases in another order than the tables: "not sure" and
  "quote" come before "by" and "asap".
\<close>

theorem reasons_in_declaration_order_witness:
  "high (reasons (classifyLead (JString ''Just curious, not sure: a quote by Friday, ASAP?''))) =
     [''Urgent timeline (+3)'', ''Deadline mentioned (+1)'', ''Requesting a quote (+2)'']
   \<and> low (reasons (classifyLead (JString ''Just curious, not sure: a quote by Friday, ASAP?''))) =
     [''Low intent language (-4)'', ''Uncertain intent (-3)'']"
proof -
  have n: "normalizedMessage (JString ''Just curious, not sure: a quote by Friday, ASAP?'') =
      ''just curious, not sure: a quote by friday, asap?''"
    by code_simp
  have h: "map snd (filter (\<lambda>(k, r). sublist k ''just curious, not sure: a quote by friday, asap?'')
       [(''asap'', ''Urgent timeline (+3)''),
        (''next month'', ''Near-term intent (+3)''),
        (''starting'', ''Start date mentioned (+2)''),
        (''within'', ''Defined timeline window (+2)''),
        (''by'', ''Deadline mentioned (+1)''),
        (''premium'', ''Premium service language (+2)''),
        (''proposal'', ''Requesting a proposal (+2)''),
        (''quote'', ''Requesting a quote (+2)''),
        (''budget'', ''Budget mentioned (+2)''),
        (''scope'', ''Scope mentioned (+2)''),
        (''requirements'', ''Requirements mentioned (+2)''),
        (''deliverables'', ''Deliverables mentioned (+2)''),
        (''contract'', ''Contract language (+2)''),
        (''retainer'', ''Retainer language (+2)''),
        (''call'', ''Wants to discuss next steps (+1)''),
        (''meeting'', ''Wants to discuss next steps (+1)'')])
     = [''Urgent timeline (+3)'', ''Deadline mentioned (+1)'', ''Requesting a quote (+2)'']"
    by code_simp
  have l: "map snd (filter (\<lambda>(k, r). sublist k ''just curious, not sure: a quote by friday, asap?'')
       [(''just curious'', ''Low intent language (-4)''),
        (''maybe later'', ''Uncertain timeline (-3)''),
        (''not sure'', ''Uncertain intent (-3)''),
        (''whenever'', ''No urgency (-2)''),
        (''someday'', ''No timeline (-2)''),
        (''someone nice'', ''Vague request language (-2)''),
        (''anything'', ''Vague request language (-2)''),
        (''free'', ''Low budget / free request (-4)''),
        (''cheap'', ''Low investment signal (-3)''),
        (''urgent help pls'', ''Low-signal / spammy phrasing (-3)'')])
     = [''Low intent language (-4)'', ''Uncertain intent (-3)'']"
    by code_simp
  from reasons_in_declaration_order
         [of "JString ''Just curious, not sure: a quote by Friday, ASAP?''", unfolded n h l]
  show ?thesis .
qed

section \<open>Messages without content\<close>

lemma lower_char_space: "is_space c \<Longrightarrow> lower_char c = c"
  by (auto simp: is_space_def lower_char_def Let_def)

lemma toLowerCase_spaces: "list_all is_space ws \<Longrightarrow> toLowerCase ws = ws"
  by (simp add: toLowerCase_def list_all_iff lower_char_space map_idI)

lemma no_phrase_in_spaces:
  assumes "list_all is_space ws" and "k \<noteq> []" and "\<not> is_space (hd k)"
  shows "\<not> includes_js ws k"
proof
  assume "includes_js ws k"
  then have "set k \<subseteq> set ws"
    by (simp add: includes_js_sublist set_mono_sublist)
  moreover from assms(2) have "hd k \<in> set k" by simp
  ultimately have "is_space (hd k)"
    using assms(1) by (auto simp: list_all_iff)
  with assms(3) show False by simp
qed

lemma phrases_start_with_letter:
  "list_all (\<lambda>k. k \<noteq> [] \<and> \<not> is_space (hd k))
     (map key highSignals @ map key lowSignals @ intentSignals @ hardNegatives)"
  by code_simp

lemma no_phrase_in_blank:
  assumes "list_all is_space ws"
  shows "list_all (\<lambda>k. \<not> includes_js ws k)
     (map key highSignals @ map key lowSignals @ intentSignals @ hardNegatives)"
  unfolding list_all_iff
proof
  fix k
  assume "k \<in> set (map key highSignals @ map key lowSignals @ intentSignals @ hardNegatives)"
  with phrases_start_with_letter have "k \<noteq> [] \<and> \<not> is_space (hd k)"
    unfolding list_all_iff by blast
  with assms show "\<not> includes_js ws k"
    by (simp add: no_phrase_in_spaces)
qed

lemma no_phrase_in_null:
  "list_all (\<lambda>k. \<not> includes_js ''null'' k)
     (map key highSignals @ map key lowSignals @ intentSignals @ hardNegatives)"
  by code_simp

lemma nothing_matches:
  assumes "list_all (\<lambda>k. \<not> includes_js msg k)
     (map key highSignals @ map key lowSignals @ intentSignals @ hardNegatives)"
  shows "matchedHigh msg = []" "matchedLow msg = []" "\<not> hasIntentSignal msg"
  using assms
  by (auto simp: matchedHigh_def matchedLow_def hasIntentSignal_def list_all_iff list_ex_iff
      filter_empty_conv)

lemma nothing_matches_low:
  assumes "list_all (\<lambda>k. \<not> includes_js (normalizedMessage v) k)
     (map key highSignals @ map key lowSignals @ intentSignals @ hardNegatives)"
  shows "classifyLead v =
     \<lparr>label = ''LOW'', scores = \<lparr>highScore = 0, lowScore = 0, netScore = 0\<rparr>,
      reasons = \<lparr>high = [], low = []\<rparr>\<rparr>"
  using nothing_matches [OF assms] by (simp add: classifyLead_def Let_def)

text \<open>
  C7, as the code has it. A missing message and the empty one are lower-cased to the
  empty string; \<^verbatim>\<open>null\<close> becomes the string "null", and a message of white space only is
  kept as it is, since \<^verbatim>\<open>classifyLead\<close> does not trim. Each of them is labelled LOW, with
  the three scores 0 and both reason lists empty.
\<close>

theorem blank_message_low:
  assumes "v = JUndefined \<or> v = JNull \<or> (\<exists>ws. v = JString ws \<and> list_all is_space ws)"
  shows "normalizedMessage v = (if v = JUndefined then [] else String_js v)
     \<and> classifyLead v =
         \<lparr>label = ''LOW'', scores = \<lparr>highScore = 0, lowScore = 0, netScore = 0\<rparr>,
          reasons = \<lparr>high = [], low = []\<rparr>\<rparr>"
proof -
  have n: "normalizedMessage v = (if v = JUndefined then [] else String_js v)"
    using assms
    by (auto simp: normalizedMessage_def toLowerCase_spaces) (simp add: toLowerCase_def lower_char_def)
  have "list_all (\<lambda>k. \<not> includes_js (normalizedMessage v) k)
     (map key highSignals @ map key lowSignals @ intentSignals @ hardNegatives)"
  proof -
    consider "v = JUndefined" | "v = JNull" | ws where "v = JString ws" "list_all is_space ws"
      using assms by blast
    then show ?thesis
    proof cases
      case 1
      with n no_phrase_in_blank [of "[]"] show ?thesis by simp
    next
      case 2
      with n no_phrase_in_null show ?thesis by simp
    next
      case 3
      with n no_phrase_in_blank [of ws] show ?thesis by simp
    qed
  qed
  with n nothing_matches_low show ?thesis by blast
qed

text \<open>The four kinds of message, one of each.\<close>

theorem blank_message_low_witness:
  "normalizedMessage JUndefined = []
   \<and> normalizedMessage (JString []) = []
   \<and> normalizedMessage JNull = ''null''
   \<and> normalizedMessage (JString [CHR '' '', CHR 0x09, CHR 0x0A, CHR '' '']) = [CHR '' '', CHR 0x09, CHR 0x0A, CHR '' '']
   \<and> label (classifyLead JUndefined) = ''LOW''
   \<and> label (classifyLead (JString [])) = ''LOW''
   \<and> label (classifyLead JNull) = ''LOW''
   \<and> classifyLead (JString [CHR '' '', CHR 0x09, CHR 0x0A, CHR '' '']) =
         \<lparr>label = ''LOW'', scores = \<lparr>highScore = 0, lowScore = 0, netScore = 0\<rparr>,
          reasons = \<lparr>high = [], low = []\<rparr>\<rparr>"
proof -
  have s: "list_all is_space [CHR '' '', CHR 0x09, CHR 0x0A, CHR '' '']" "list_all is_space []"
    by code_simp+
  show ?thesis
    using blank_message_low [of JUndefined] blank_message_low [of JNull]
      blank_message_low [of "JString []"]
      blank_message_low [of "JString [CHR '' '', CHR 0x09, CHR 0x0A, CHR '' '']"] s
    by simp
qed

text \<open>
  C7 as the specification words it fails: neither \<^verbatim>\<open>null\<close> nor two spaces are
  lower-cased to the empty string.
\<close>

theorem null_not_empty_counterexample:
  "normalizedMessage JNull \<noteq> [] \<and> normalizedMessage (JString ''  '') \<noteq> []"
  by code_simp

section \<open>A HIGH label has a reason\<close>

lemma high_points_positive: "\<forall>s\<in>set highSignals. 1 \<le> points s"
  by code_simp

lemma sum_points_ge:
  assumes "\<forall>s\<in>set xs. 1 \<le> points s" and "xs \<noteq> []"
  shows "1 \<le> sum_list (map points xs)"
  using assms
proof (induction xs)
  case Nil
  then show ?case by simp
next
  case (Cons x xs)
  then have "0 \<le> sum_list (map points xs)"
    by (intro sum_list_nonneg) auto
  with Cons.prems show ?case by simp
qed

text \<open>
  C9. Whenever the label is HIGH, \<^verbatim>\<open>reasons.high\<close> is not empty and the high score is at
  least 1: every phrase of \<^verbatim>\<open>intentSignals\<close> is the key of a high-signal rule, so the
  intent gate is passed only with a matched high-signal rule.
\<close>

theorem high_label_has_high_reason:
  assumes "label (classifyLead v) = ''HIGH''"
  shows "high (reasons (classifyLead v)) \<noteq> []
     \<and> 1 \<le> highScore (scores (classifyLead v))
     \<and> set intentSignals \<subseteq> key ` set highSignals"
proof -
  from assms have "hasIntentSignal (normalizedMessage v)"
    by (simp add: label_classifyLead split: if_splits)
  then have ne: "matchedHigh (normalizedMessage v) \<noteq> []"
    using hasIntentSignal_matched by fastforce
  then have "high (reasons (classifyLead v)) \<noteq> []"
    by (simp add: classifyLead_def Let_def)
  moreover have "\<forall>s\<in>set (matchedHigh (normalizedMessage v)). 1 \<le> points s"
    using high_points_positive by (simp add: matchedHigh_def)
  then have "1 \<le> highScore (scores (classifyLead v))"
    using ne by (simp add: scores_classifyLead sum_points_ge)
  ultimately show ?thesis using intent_keys_are_high_keys by simp
qed

text \<open>A HIGH message.\<close>

theorem high_label_has_high_reason_witness:
  "label (classifyLead (JString ''Can we schedule a call? Budget is set.'')) = ''HIGH''
   \<and> high (reasons (classifyLead (JString ''Can we schedule a call? Budget is set.''))) \<noteq> []
   \<and> 1 \<le> highScore (scores (classifyLead (JString ''Can we schedule a call? Budget is set.'')))"
proof -
  have a: "label (classifyLead (JString ''Can we schedule a call? Budget is set.'')) = ''HIGH''"
    by code_simp
  from a high_label_has_high_reason [OF a] show ?thesis by blast
qed

section \<open>The handler: honeypot and persistence failure\<close>

lemma dropWhile_all_iff: "(\<forall>x\<in>set (dropWhile P xs). P x) \<longleftrightarrow> (\<forall>x\<in>set xs. P x)"
proof
  assume a: "\<forall>x\<in>set (dropWhile P xs). P x"
  have "dropWhile P xs = []"
  proof (rule ccontr)
    assume "dropWhile P xs \<noteq> []"
    then have "\<not> P (hd (dropWhile P xs))" "hd (dropWhile P xs) \<in> set (dropWhile P xs)"
      by (simp_all add: hd_dropWhile)
    with a show False by blast
  qed
  then show "\<forall>x\<in>set xs. P x" by simp
next
  assume "\<forall>x\<in>set xs. P x"
  then show "\<forall>x\<in>set (dropWhile P xs). P x"
    using set_dropWhileD by fastforce
qed

lemma trim_eq_Nil_iff: "trim s = [] \<longleftrightarrow> list_all is_space s"
  by (simp add: trim_def dropWhile_all_iff list_all_iff)

text \<open>
  C8. When the honeypot field \<^verbatim>\<open>company_website\<close> is not empty after trimming, the
  handler answers \<^verbatim>\<open>{ ok: true, ignored: true }\<close> and makes no call at all: no
  classification, no mail, no append, no Notion page and no Slack message. The message and
  the contact fields play no part.
\<close>

theorem honeypot_ignored:
  assumes "trim (String_js (or_empty (company_website b))) \<noteq> []"
  shows "post_lead e b = \<lparr>calls = [], outcome = Inr \<lparr>status = 200, body = Ignored\<rparr>\<rparr>"
  using assms by (simp add: post_lead_def)

text \<open>
  A filled honeypot with every other field missing, and one with an empty message.
\<close>

theorem honeypot_ignored_witness:
  "trim (String_js (or_empty (JString '' http://bot.example ''))) = ''http://bot.example''
   \<and> (\<forall>e. post_lead e
        \<lparr>email = JUndefined, phone = JUndefined, whatsapp = JUndefined,
         message = JUndefined, company_website = JString '' http://bot.example ''\<rparr>
      = \<lparr>calls = [], outcome = Inr \<lparr>status = 200, body = Ignored\<rparr>\<rparr>)
   \<and> (\<forall>e. post_lead e
        \<lparr>email = JString ''a@b.com'', phone = JNull, whatsapp = JNull,
         message = JString [], company_website = JString '' http://bot.example ''\<rparr>
      = \<lparr>calls = [], outcome = Inr \<lparr>status = 200, body = Ignored\<rparr>\<rparr>)"
proof -
  have t: "trim (String_js (or_empty (JString '' http://bot.example ''))) = ''http://bot.example''"
    by code_simp
  then have ne: "trim (String_js (or_empty (JString '' http://bot.example ''))) \<noteq> []"
    by simp
  have "post_lead e
        \<lparr>email = JUndefined, phone = JUndefined, whatsapp = JUndefined,
         message = JUndefined, company_website = JString '' http://bot.example ''\<rparr>
      = \<lparr>calls = [], outcome = Inr \<lparr>status = 200, body = Ignored\<rparr>\<rparr>" for e
    using ne by (intro honeypot_ignored) simp
  moreover have "post_lead e
        \<lparr>email = JString ''a@b.com'', phone = JNull, whatsapp = JNull,
         message = JString [], company_website = JString '' http://bot.example ''\<rparr>
      = \<lparr>calls = [], outcome = Inr \<lparr>status = 200, body = Ignored\<rparr>\<rparr>" for e
    using ne by (intro honeypot_ignored) simp
  ultimately show ?thesis using t by blast
qed

lemma post_lead_passes:
  assumes "passes_checks b"
  shows "post_lead e b =
     process_lead e (trim (String_js (or_empty (message b))))
       (trim (String_js (or_empty (email b))))
       (trim (String_js (or_empty (phone b))))
       (trim (String_js (or_empty (whatsapp b))))"
  using assms by (auto simp: post_lead_def passes_checks_def Let_def)

lemma email_step_calls:
  "fst (email_step e lbl ce) =
     (if lbl = ''HIGH'' \<and> isLikelyEmail (JString ce) then [CallSendMail ce] else [])"
  by (simp add: email_step_def split: option.splits)

lemma process_lead_calls:
  "\<exists>l rest.
     calls (process_lead e cm ce cp cw) =
       CallClassifyLead cm # fst (email_step e (label (classifyLead (JString cm))) ce)
         @ CallAppendLeadToDisk l # rest
     \<and> (\<forall>err. appendLeadToDisk_throws e = Some err \<longrightarrow>
           rest = [] \<and> outcome (process_lead e cm ce cp cw) = Inl err)"
  by (cases "appendLeadToDisk_throws e")
     (auto simp: process_lead_def Let_def split: prod.splits option.splits)

text \<open>
  C10. For a request that passes the checks, the handler calls \<^verbatim>\<open>classifyLead\<close>, then
  the mailer for a HIGH lead with a plausible address, then \<^verbatim>\<open>appendLeadToDisk\<close>,
  whatever the mailer did. When the append throws, the thrown value leaves the handler:
  no response is sent, and neither Notion nor Slack is called.
\<close>

theorem append_failure_aborts:
  assumes "passes_checks b"
  shows "(\<exists>l rest. calls (post_lead e b) =
            CallClassifyLead (trim (String_js (or_empty (message b))))
            # (if label (classifyLead (JString (trim (String_js (or_empty (message b)))))) = ''HIGH''
                  \<and> isLikelyEmail (JString (trim (String_js (or_empty (email b)))))
               then [CallSendMail (trim (String_js (or_empty (email b))))] else [])
            @ CallAppendLeadToDisk l # rest)
     \<and> (\<forall>err. appendLeadToDisk_throws e = Some err \<longrightarrow>
           outcome (post_lead e b) = Inl err
           \<and> \<not> list_ex is_notion_call (calls (post_lead e b))
           \<and> \<not> list_ex is_slack_call (calls (post_lead e b)))"
proof -
  let ?cm = "trim (String_js (or_empty (message b)))"
  let ?ce = "trim (String_js (or_empty (email b)))"
  let ?cp = "trim (String_js (or_empty (phone b)))"
  let ?cw = "trim (String_js (or_empty (whatsapp b)))"
  have p: "post_lead e b = process_lead e ?cm ?ce ?cp ?cw"
    using assms by (rule post_lead_passes)
  obtain l rest where c: "calls (process_lead e ?cm ?ce ?cp ?cw) =
       CallClassifyLead ?cm # fst (email_step e (label (classifyLead (JString ?cm))) ?ce)
         @ CallAppendLeadToDisk l # rest"
    and r: "\<forall>err. appendLeadToDisk_throws e = Some err \<longrightarrow>
           rest = [] \<and> outcome (process_lead e ?cm ?ce ?cp ?cw) = Inl err"
    using process_lead_calls [of e ?cm ?ce ?cp ?cw] by blast
  have "\<exists>l rest. calls (post_lead e b) =
            CallClassifyLead ?cm
            # (if label (classifyLead (JString ?cm)) = ''HIGH'' \<and> isLikelyEmail (JString ?ce)
               then [CallSendMail ?ce] else [])
            @ CallAppendLeadToDisk l # rest"
    using c unfolding p email_step_calls by blast
  moreover have "outcome (post_lead e b) = Inl err
           \<and> \<not> list_ex is_notion_call (calls (post_lead e b))
           \<and> \<not> list_ex is_slack_call (calls (post_lead e b))"
    if "appendLeadToDisk_throws e = Some err" for err
  proof -
    from that r have "rest = []" "outcome (process_lead e ?cm ?ce ?cp ?cw) = Inl err"
      by simp_all
    with c show ?thesis
      unfolding p email_step_calls by (simp add: list_ex_iff)
  qed
  ultimately show ?thesis by blast
qed

text \<open>A HIGH lead for which the mailer fails and the append throws.\<close>

theorem append_failure_aborts_witness:
  "passes_checks
      \<lparr>email = JString ''a@b.com'', phone = JUndefined, whatsapp = JUndefined,
       message = JString ''Need a quote ASAP'', company_website = JUndefined\<rparr>
   \<and> outcome (post_lead
      \<lparr>NOTION_TOKEN_set = True,
       sendMail_throws = Some \<lparr>err_data = [], err_message = ''ECONNREFUSED''\<rparr>,
       appendLeadToDisk_throws = Some \<lparr>err_data = [], err_message = ''EACCES''\<rparr>,
       pagesCreate_throws = None, pagesCreate_id = ''page1'',
       postMessage_throws = None,
       safeId_value = ''lead_a_b'', toISOString_value = ''2026-01-01T00:00:00.000Z''\<rparr>
      \<lparr>email = JString ''a@b.com'', phone = JUndefined, whatsapp = JUndefined,
       message = JString ''Need a quote ASAP'', company_website = JUndefined\<rparr>)
     = Inl \<lparr>err_data = [], err_message = ''EACCES''\<rparr>
   \<and> (\<exists>l rest. calls (post_lead
      \<lparr>NOTION_TOKEN_set = True,
       sendMail_throws = Some \<lparr>err_data = [], err_message = ''ECONNREFUSED''\<rparr>,
       appendLeadToDisk_throws = Some \<lparr>err_data = [], err_message = ''EACCES''\<rparr>,
       pagesCreate_throws = None, pagesCreate_id = ''page1'',
       postMessage_throws = None,
       safeId_value = ''lead_a_b'', toISOString_value = ''2026-01-01T00:00:00.000Z''\<rparr>
      \<lparr>email = JString ''a@b.com'', phone = JUndefined, whatsapp = JUndefined,
       message = JString ''Need a quote ASAP'', company_website = JUndefined\<rparr>)
     = CallClassifyLead ''Need a quote ASAP'' # CallSendMail ''a@b.com''
         # CallAppendLeadToDisk l # rest)"
proof -
  let ?e = "\<lparr>NOTION_TOKEN_set = True,
       sendMail_throws = Some \<lparr>err_data = [], err_message = ''ECONNREFUSED''\<rparr>,
       appendLeadToDisk_throws = Some \<lparr>err_data = [], err_message = ''EACCES''\<rparr>,
       pagesCreate_throws = None, pagesCreate_id = ''page1'',
       postMessage_throws = None,
       safeId_value = ''lead_a_b'', toISOString_value = ''2026-01-01T00:00:00.000Z''\<rparr>"
  let ?b = "\<lparr>email = JString ''a@b.com'', phone = JUndefined, whatsapp = JUndefined,
       message = JString ''Need a quote ASAP'', company_website = JUndefined\<rparr>"
  have pc: "passes_checks ?b" by code_simp
  have v: "trim (String_js (or_empty (JString ''Need a quote ASAP''))) = ''Need a quote ASAP''"
    "trim (String_js (or_empty (JString ''a@b.com''))) = ''a@b.com''"
    "label (classifyLead (JString ''Need a quote ASAP'')) = ''HIGH''"
    "isLikelyEmail (JString ''a@b.com'')"
    by code_simp+
  note th = append_failure_aborts [OF pc, of ?e]
  from th have "\<exists>l rest. calls (post_lead ?e ?b) =
       CallClassifyLead ''Need a quote ASAP'' # CallSendMail ''a@b.com''
         # CallAppendLeadToDisk l # rest"
    by (simp add: v)
  moreover from th have "outcome (post_lead ?e ?b) = Inl \<lparr>err_data = [], err_message = ''EACCES''\<rparr>"
    by simp
  ultimately show ?thesis using pc by blast
qed

end
